theory Spec2Isabelle
  imports Main "HOL-Library.Sublist"
begin

section \<open>JavaScript strings and values as the handlers use them\<close>

text \<open>
  The handlers destructure the parsed JSON body and use four string operations:
  \<^verbatim>\<open>length\<close>, \<^verbatim>\<open>toLowerCase\<close>, \<^verbatim>\<open>trim\<close> and \<^verbatim>\<open>includes\<close>. A string is a list of
  characters; a body field is \<open>None\<close> when the key is absent (JavaScript's
  \<^verbatim>\<open>undefined\<close>) and \<open>Some s\<close> when it holds the string \<open>s\<close>. The embedding covers
  bodies that are JSON objects whose fields, where present, are strings, which is what
  the form controller sends.
\<close>

type_synonym js_value = "string option"

text \<open>\<^verbatim>\<open>!v\<close>: \<^verbatim>\<open>undefined\<close> and the empty string are falsy, every other string is truthy.\<close>

definition falsy :: "js_value \<Rightarrow> bool" where
  "falsy v = (case v of None \<Rightarrow> True | Some s \<Rightarrow> s = [])"

text \<open>
  The string held by a value. The handlers read it only after the falsiness test has
  returned for \<^verbatim>\<open>undefined\<close>, and \<^verbatim>\<open>a || b\<close> reads it only for a truthy \<^verbatim>\<open>a\<close>.
\<close>

definition str :: "js_value \<Rightarrow> string" where
  "str v = (case v of None \<Rightarrow> [] | Some s \<Rightarrow> s)"

text \<open>
  A character stands for a UTF-16 code unit below 256, read as Latin-1. The capitals
  among these are A to Z (65 to 90) and the accented capitals 192 to 222 without the
  multiplication sign 215; \<^verbatim>\<open>toLowerCase\<close> moves each of them up by 32 and leaves every
  other code unit as it is.
\<close>

definition isUpperCase :: "char \<Rightarrow> bool" where
  "isUpperCase c =
     (let n = (of_char c :: nat)
      in (65 \<le> n \<and> n \<le> 90) \<or> (192 \<le> n \<and> n \<le> 214) \<or> (216 \<le> n \<and> n \<le> 222))"

definition lowerChar :: "char \<Rightarrow> char" where
  "lowerChar c = (if isUpperCase c then char_of ((of_char c :: nat) + 32) else c)"

definition toLowerCase :: "string \<Rightarrow> string" where
  "toLowerCase s = map lowerChar s"

text \<open>White space of \<^verbatim>\<open>String.prototype.trim\<close> among the code units below 256.\<close>

definition isWhiteSpace :: "char \<Rightarrow> bool" where
  "isWhiteSpace c = ((of_char c :: nat) \<in> {9, 10, 11, 12, 13, 32, 160})"

definition trim :: "string \<Rightarrow> string" where
  "trim s = rev (dropWhile isWhiteSpace (rev (dropWhile isWhiteSpace s)))"

text \<open>\<^verbatim>\<open>s.includes(t)\<close>: \<open>t\<close> occurs in \<open>s\<close> as a contiguous substring.\<close>

definition str_includes :: "string \<Rightarrow> string \<Rightarrow> bool" where
  "str_includes s t = sublist t s"

section \<open>Requests and responses\<close>

text \<open>
  A request as a handler sees it: \<open>userPayload\<close> is what \<^verbatim>\<open>getUserFromRequest(request)\<close>
  returns (the caller's user identifier, or nothing), \<open>jsonBody\<close> is what
  \<^verbatim>\<open>await request.json()\<close> returns.
\<close>

record request =
  userPayload :: "nat option"
  jsonBody :: "string \<rightharpoonup> string"

datatype json = JBool bool | JStr string | JId nat | JObj "(string \<times> json) list"

record response =
  status :: nat
  body :: json

text \<open>\<^verbatim>\<open>NextResponse.json({success: false, error: msg}, {status: st})\<close>\<close>

definition failure :: "string \<Rightarrow> nat \<Rightarrow> response" where
  "failure msg st = \<lparr>status = st, body = JObj [(''success'', JBool False), (''error'', JStr msg)]\<rparr>"

section \<open>The credential store\<close>

record user =
  user_id :: nat
  name :: string
  email :: string
  password :: string
  role :: string
  isActive :: bool

text \<open>
  Modelled from the spec: the write-time hash hook and the password-comparison
  capability of the user model \<^verbatim>\<open>@/models/QaMonitorUsers\<close>, of which the handlers hold
  only the call sites. \<open>hashHook\<close> turns a plaintext password into the stored hash,
  \<open>verify candidate stored\<close> compares a candidate with a stored hash. Both are
  parameters of the handlers.
\<close>

record hasher =
  hashHook :: "string \<Rightarrow> string"
  verify :: "string \<Rightarrow> string \<Rightarrow> bool"

text \<open>
  Modelled from the spec: a password hash verifies against the password it was made
  from and against no other.
\<close>

definition sound_hasher :: "hasher \<Rightarrow> bool" where
  "sound_hasher h = (\<forall>c p. verify h c (hashHook h p) = (c = p))"

text \<open>
  Modelled from the spec: the collection of user records with lookup by identifier,
  lookup by email, and a save that applies the hash hook to the password. The
  collection is a list of records; a lookup returns the first record whose identifier,
  or whose email, is the one asked for, compared as it is given; \<open>updateOne\<close> rewrites
  the first record with the given identifier.
\<close>

definition findById :: "user list \<Rightarrow> nat \<Rightarrow> user option" where
  "findById db i = find (\<lambda>u. user_id u = i) db"

definition findOne :: "user list \<Rightarrow> string \<Rightarrow> user option" where
  "findOne db e = find (\<lambda>u. email u = e) db"

definition comparePassword :: "hasher \<Rightarrow> user \<Rightarrow> string \<Rightarrow> bool" where
  "comparePassword h u candidate = verify h candidate (password u)"

fun updateOne :: "nat \<Rightarrow> user \<Rightarrow> user list \<Rightarrow> user list" where
  "updateOne i d [] = []"
| "updateOne i d (u # us) = (if user_id u = i then d # us else u # updateOne i d us)"

text \<open>\<^verbatim>\<open>user.save()\<close> on a document that was read from the collection.\<close>

definition saveExisting :: "hasher \<Rightarrow> user list \<Rightarrow> user \<Rightarrow> user list" where
  "saveExisting h db d = updateOne (user_id d) (d\<lparr>password := hashHook h (password d)\<rparr>) db"

text \<open>
  An exception as the \<^verbatim>\<open>catch\<close> block reads it: its \<^verbatim>\<open>code\<close> property, if it has one.
\<close>

record js_error =
  code :: "nat option"

text \<open>
  Modelled from the spec: \<^verbatim>\<open>new User({...})\<close> gives the document a fresh identifier and
  the default active flag \<^verbatim>\<open>true\<close>; \<^verbatim>\<open>user.save()\<close> on a new document is refused by the
  store's unique constraint on email with a duplicate-key error (code 11000),
  and otherwise appends the document with its password hashed.
\<close>

definition newObjectId :: "user list \<Rightarrow> nat" where
  "newObjectId db = Suc (fold max (map user_id db) 0)"

definition newUser :: "user list \<Rightarrow> string \<Rightarrow> string \<Rightarrow> string \<Rightarrow> string \<Rightarrow> user" where
  "newUser db n e p r =
     \<lparr>user_id = newObjectId db, name = n, email = e, password = p, role = r, isActive = True\<rparr>"

definition saveNew :: "hasher \<Rightarrow> user list \<Rightarrow> user \<Rightarrow> js_error + (user \<times> user list)" where
  "saveNew h db d =
     (if list_ex (\<lambda>u. email u = email d) db then Inl \<lparr>code = Some 11000\<rparr>
      else (let saved = d\<lparr>password := hashHook h (password d)\<rparr> in Inr (saved, db @ [saved])))"

text \<open>
  The calls a handler makes on its collaborators, in the order it makes them. \<open>Save d\<close>
  records the document as the handler hands it to the store.
\<close>

datatype effect =
    ConnectToDatabase
  | GetUserFromRequest
  | RequestJson
  | FindById nat
  | FindOne string
  | ComparePassword string
  | Save user

section \<open>The password-change handler\<close>

text \<open>
  The handler returns the response, the collection after the call and the calls it made.
  Its collaborators are modelled as returning normally, so the \<^verbatim>\<open>catch\<close> block of this
  handler, which answers 500 to any exception, has no run in the model.
\<close>

definition change_ok :: response where
  "change_ok =
     \<lparr>status = 200,
      body = JObj [(''success'', JBool True), (''message'', JStr ''Password changed successfully'')]\<rparr>"

definition PUT :: "hasher \<Rightarrow> user list \<Rightarrow> request \<Rightarrow> response \<times> user list \<times> effect list" where
  "PUT h db request =
     (case userPayload request of
        None \<Rightarrow> (failure ''Unauthorized'' 401, db, [ConnectToDatabase, GetUserFromRequest])
      | Some userId \<Rightarrow>
          (let oldPassword = jsonBody request ''oldPassword'';
               newPassword = jsonBody request ''newPassword'';
               pre = [ConnectToDatabase, GetUserFromRequest, RequestJson]
           in
             if falsy oldPassword \<or> falsy newPassword then
               (failure ''Old password and new password are required'' 400, db, pre)
             else if length (str newPassword) < 6 then
               (failure ''New password must be at least 6 characters long'' 400, db, pre)
             else
               (case findById db userId of
                  None \<Rightarrow> (failure ''User not found'' 404, db, pre @ [FindById userId])
                | Some user \<Rightarrow>
                    if \<not> isActive user then
                      (failure ''Account is deactivated'' 401, db, pre @ [FindById userId])
                    else if \<not> comparePassword h user (str oldPassword) then
                      (failure ''Current password is incorrect'' 400, db,
                       pre @ [FindById userId, ComparePassword (str oldPassword)])
                    else if comparePassword h user (str newPassword) then
                      (failure ''New password must be different from current password'' 400, db,
                       pre @ [FindById userId, ComparePassword (str oldPassword),
                              ComparePassword (str newPassword)])
                    else
                      (let user' = user\<lparr>password := str newPassword\<rparr> in
                         (change_ok, saveExisting h db user',
                          pre @ [FindById userId, ComparePassword (str oldPassword),
                                 ComparePassword (str newPassword), Save user'])))))"

section \<open>The account-creation handler\<close>

definition create_ok :: "user \<Rightarrow> response" where
  "create_ok savedUser =
     \<lparr>status = 200,
      body = JObj
        [(''success'', JBool True),
         (''data'', JObj [(''user'', JObj
            [(''_id'', JId (user_id savedUser)),
             (''name'', JStr (name savedUser)),
             (''email'', JStr (email savedUser)),
             (''role'', JStr (role savedUser)),
             (''isActive'', JBool (isActive savedUser))])]),
         (''message'', JStr ''Account created successfully'')]\<rparr>"

text \<open>
  The body of the \<^verbatim>\<open>try\<close> block: a response, or the exception that left it. The one
  exception the model raises is the store's duplicate-key error on save.
\<close>

definition POST_try ::
  "hasher \<Rightarrow> user list \<Rightarrow> request \<Rightarrow> (js_error + response) \<times> user list \<times> effect list" where
  "POST_try h db request =
     (let name' = jsonBody request ''name'';
          email' = jsonBody request ''email'';
          oldPassword = jsonBody request ''oldPassword'';
          newPassword = jsonBody request ''newPassword'';
          role' = (case jsonBody request ''role'' of None \<Rightarrow> ''tester'' | Some r \<Rightarrow> r);
          pre = [ConnectToDatabase, RequestJson]
      in
        if falsy name' \<or> falsy email' \<or> falsy oldPassword \<or> falsy newPassword then
          (Inr (failure ''All fields are required'' 400), db, pre)
        else if length (str newPassword) < 6 then
          (Inr (failure ''New password must be at least 6 characters long'' 400), db, pre)
        else if oldPassword = newPassword then
          (Inr (failure ''New password must be different from the old password'' 400), db, pre)
        else
          (case findOne db (toLowerCase (str email')) of
             Some existingUser \<Rightarrow>
               (Inr (failure ''User with this email already exists'' 400), db,
                pre @ [FindOne (toLowerCase (str email'))])
           | None \<Rightarrow>
               (let user = newUser db (trim (str name')) (trim (toLowerCase (str email')))
                             (str newPassword) role';
                    log = pre @ [FindOne (toLowerCase (str email')), Save user]
                in case saveNew h db user of
                     Inl err \<Rightarrow> (Inl err, db, log)
                   | Inr (savedUser, db') \<Rightarrow> (Inr (create_ok savedUser), db', log))))"

text \<open>The \<^verbatim>\<open>catch\<close> block.\<close>

definition POST_catch :: "js_error \<Rightarrow> response" where
  "POST_catch err =
     (if code err = Some 11000 then failure ''User with this email already exists'' 400
      else failure ''Failed to create account'' 500)"

definition POST :: "hasher \<Rightarrow> user list \<Rightarrow> request \<Rightarrow> response \<times> user list \<times> effect list" where
  "POST h db request =
     (case POST_try h db request of
        (Inl err, db', log) \<Rightarrow> (POST_catch err, db', log)
      | (Inr r, db', log) \<Rightarrow> (r, db', log))"

section \<open>The form controller's handling of a server error\<close>

record FieldErrors =
  oldPassword :: "string option"
  newPassword :: "string option"
  general :: "string option"

text \<open>
  \<^verbatim>\<open>error.response?.data?.error || "Failed to process request"\<close>; the argument is the
  \<^verbatim>\<open>error\<close> property of the response body, if the chain reaches one.
\<close>

definition errorMessage :: "js_value \<Rightarrow> string" where
  "errorMessage e = (if falsy e then ''Failed to process request'' else str e)"

text \<open>The \<^verbatim>\<open>catch\<close> block of \<^verbatim>\<open>handleSubmit\<close>: the field errors it sets.\<close>

definition handleSubmit_catch :: "js_value \<Rightarrow> FieldErrors" where
  "handleSubmit_catch e =
     (let msg = errorMessage e in
        if str_includes msg ''Current password is incorrect'' \<or> str_includes msg ''password'' then
          \<lparr>oldPassword = Some msg, newPassword = None, general = None\<rparr>
        else
          \<lparr>oldPassword = None, newPassword = None, general = Some msg\<rparr>)"

section \<open>Concrete instances\<close>

text \<open>
  A hasher that satisfies the spec's contract, a one-record store and requests against
  it, on which the theorems below are instantiated.
\<close>

definition demo_hasher :: hasher where
  "demo_hasher = \<lparr>hashHook = (\<lambda>p. CHR ''#'' # p), verify = (\<lambda>c s. s = CHR ''#'' # c)\<rparr>"

definition demo_user :: user where
  "demo_user = \<lparr>user_id = 1, name = ''A'', email = ''a@x.com'', password = ''#default1'',
     role = ''tester'', isActive = True\<rparr>"

definition change_request :: request where
  "change_request = \<lparr>userPayload = Some 1,
     jsonBody = [''oldPassword'' \<mapsto> ''default1'', ''newPassword'' \<mapsto> ''secret1'']\<rparr>"

definition anon_request :: request where
  "anon_request = \<lparr>userPayload = None,
     jsonBody = [''oldPassword'' \<mapsto> [], ''newPassword'' \<mapsto> ''secret1'']\<rparr>"

definition create_request :: request where
  "create_request = \<lparr>userPayload = None,
     jsonBody = [''name'' \<mapsto> ''A'', ''email'' \<mapsto> ''a@x.com'',
                 ''oldPassword'' \<mapsto> ''default1'', ''newPassword'' \<mapsto> ''secret1'']\<rparr>"

definition short_create_request :: request where
  "short_create_request = \<lparr>userPayload = None,
     jsonBody = [''name'' \<mapsto> ''A'', ''email'' \<mapsto> ''a@x.com'',
                 ''oldPassword'' \<mapsto> ''default1'', ''newPassword'' \<mapsto> ''abc'']\<rparr>"

definition padded_create_request :: request where
  "padded_create_request = \<lparr>userPayload = None,
     jsonBody = [''name'' \<mapsto> ''A'', ''email'' \<mapsto> '' a@x.com'',
                 ''oldPassword'' \<mapsto> ''default1'', ''newPassword'' \<mapsto> ''secret1'']\<rparr>"

definition accent_user :: user where
  "accent_user = \<lparr>user_id = 7, name = ''E'', email = CHR 0xE9 # ''@x.com'',
     password = ''#default1'', role = ''tester'', isActive = True\<rparr>"

definition accent_create_request :: request where
  "accent_create_request = \<lparr>userPayload = None,
     jsonBody = [''name'' \<mapsto> ''E'', ''email'' \<mapsto> CHR 0xC9 # ''@X.com'',
                 ''oldPassword'' \<mapsto> ''default1'', ''newPassword'' \<mapsto> ''secret1'']\<rparr>"

definition mixed_create_request :: request where
  "mixed_create_request = \<lparr>userPayload = None,
     jsonBody = [''name'' \<mapsto> ''  Ann '', ''email'' \<mapsto> '' Ann@X.COM  '',
                 ''oldPassword'' \<mapsto> ''default1'', ''newPassword'' \<mapsto> ''secret1'']\<rparr>"

section \<open>Facts about the store\<close>

lemmas demo_defs = demo_hasher_def demo_user_def change_request_def anon_request_def
  accent_user_def

lemma demo_hasher_sound: "sound_hasher demo_hasher"
  by (simp add: sound_hasher_def demo_hasher_def eq_commute)

lemma findById_Some_id: "findById db i = Some u \<Longrightarrow> user_id u = i"
  by (auto simp: findById_def find_Some_iff)

text \<open>A successful lookup by identifier splits the collection at the first match.\<close>

lemma findById_split:
  "findById db i = Some u \<Longrightarrow>
     \<exists>pre post. db = pre @ u # post \<and> (\<forall>x\<in>set pre. user_id x \<noteq> i) \<and> user_id u = i"
proof (induction db)
  case Nil
  then show ?case by (simp add: findById_def)
next
  case (Cons a db)
  show ?case
  proof (cases "user_id a = i")
    case True
    with Cons.prems have "a = u" by (simp add: findById_def)
    with True have "a # db = [] @ u # db \<and> (\<forall>x\<in>set []. user_id x \<noteq> i) \<and> user_id u = i"
      by simp
    then show ?thesis by blast
  next
    case False
    with Cons.prems have "findById db i = Some u" by (simp add: findById_def)
    from Cons.IH[OF this] obtain pre post where
      "db = pre @ u # post" "\<forall>x\<in>set pre. user_id x \<noteq> i" "user_id u = i" by blast
    with False have "a # db = (a # pre) @ u # post \<and> (\<forall>x\<in>set (a # pre). user_id x \<noteq> i) \<and> user_id u = i"
      by simp
    then show ?thesis by blast
  qed
qed

lemma updateOne_split:
  "\<forall>x\<in>set pre. user_id x \<noteq> i \<Longrightarrow> user_id u = i \<Longrightarrow>
     updateOne i d (pre @ u # post) = pre @ d # post"
  by (induction pre) auto

lemma findById_append:
  "\<forall>x\<in>set pre. user_id x \<noteq> i \<Longrightarrow> user_id d = i \<Longrightarrow> findById (pre @ d # post) i = Some d"
  by (induction pre) (auto simp: findById_def)

lemma findById_updateOne:
  assumes "findById db i = Some u" and "user_id d = i"
  shows "findById (updateOne i d db) i = Some d"
proof -
  from findById_split[OF assms(1)] obtain pre post where
    s: "db = pre @ u # post" "\<forall>x\<in>set pre. user_id x \<noteq> i" "user_id u = i" by blast
  then have "updateOne i d db = pre @ d # post" by (simp add: updateOne_split)
  with s assms(2) show ?thesis by (simp add: findById_append)
qed

section \<open>Facts about the password-change handler\<close>

text \<open>The run of the handler when every check passes.\<close>

lemma PUT_success:
  assumes "userPayload request = Some uid"
    and "jsonBody request ''oldPassword'' = Some old" and "old \<noteq> []"
    and "jsonBody request ''newPassword'' = Some new" and "6 \<le> length new"
    and "findById db uid = Some u" and "isActive u"
    and "verify h old (password u)" and "\<not> verify h new (password u)"
  shows "PUT h db request =
           (change_ok, saveExisting h db (u\<lparr>password := new\<rparr>),
            [ConnectToDatabase, GetUserFromRequest, RequestJson, FindById uid,
             ComparePassword old, ComparePassword new, Save (u\<lparr>password := new\<rparr>)])"
proof -
  from assms(5) have "new \<noteq> []" by auto
  with assms show ?thesis
    by (simp add: PUT_def falsy_def str_def comparePassword_def Let_def)
qed

text \<open>The success response is returned on that run only.\<close>

lemma PUT_ok_inv:
  assumes "fst (PUT h db request) = change_ok"
  shows "\<exists>uid old new u. userPayload request = Some uid
           \<and> jsonBody request ''oldPassword'' = Some old \<and> old \<noteq> []
           \<and> jsonBody request ''newPassword'' = Some new \<and> 6 \<le> length new
           \<and> findById db uid = Some u \<and> isActive u
           \<and> verify h old (password u) \<and> \<not> verify h new (password u)"
  using assms
  by (auto simp: PUT_def Let_def falsy_def str_def comparePassword_def failure_def change_ok_def
           split: option.splits if_splits)

lemma PUT_failure_frame:
  assumes "fst (PUT h db request) \<noteq> change_ok"
  shows "fst (snd (PUT h db request)) = db \<and> (\<forall>d. Save d \<notin> set (snd (snd (PUT h db request))))"
  using assms
  by (auto simp: PUT_def Let_def split: option.splits if_splits)

lemma demo_change_run:
  "PUT demo_hasher [demo_user] change_request =
     (change_ok, [demo_user\<lparr>password := ''#secret1''\<rparr>],
      [ConnectToDatabase, GetUserFromRequest, RequestJson, FindById 1,
       ComparePassword ''default1'', ComparePassword ''secret1'',
       Save (demo_user\<lparr>password := ''secret1''\<rparr>)])"
  by (simp add: PUT_def demo_defs Let_def falsy_def str_def findById_def comparePassword_def
                saveExisting_def)

section \<open>Facts about strings and the account-creation handler\<close>

lemmas create_defs = create_request_def short_create_request_def padded_create_request_def
  accent_create_request_def mixed_create_request_def

lemma dropWhile_all: "\<forall>c\<in>set l. P c \<Longrightarrow> dropWhile P (l @ xs) = dropWhile P xs"
  by (induction l) auto

lemma dropWhile_all_Nil: "\<forall>c\<in>set s. P c \<Longrightarrow> dropWhile P s = []"
  by (induction s) auto

lemma trim_all_white: "\<forall>c\<in>set s. isWhiteSpace c \<Longrightarrow> trim s = []"
  by (simp add: trim_def dropWhile_all_Nil)

lemma trim_fixed_ends:
  assumes "trim s = s" and "s \<noteq> []"
  shows "\<not> isWhiteSpace (hd s) \<and> \<not> isWhiteSpace (last s)"
proof -
  have len: "length (rev (dropWhile isWhiteSpace (rev (dropWhile isWhiteSpace s))))
               \<le> length (dropWhile isWhiteSpace s)"
    by (metis length_dropWhile_le length_rev)
  have "length (dropWhile isWhiteSpace s) \<le> length s" by (rule length_dropWhile_le)
  with len assms(1) have "length (dropWhile isWhiteSpace s) = length s"
    unfolding trim_def by simp
  then have d1: "dropWhile isWhiteSpace s = s"
    by (metis append_eq_conv_conj takeWhile_dropWhile_id append_Nil
              length_append add_cancel_right_left length_0_conv)
  with assms(1) have "dropWhile isWhiteSpace (rev s) = rev s"
    unfolding trim_def by (metis rev_rev_ident)
  with d1 assms(2) show ?thesis
    by (metis hd_dropWhile hd_rev rev_is_Nil_conv)
qed

lemma trim_padded:
  assumes "trim s = s" and "\<forall>c\<in>set l. isWhiteSpace c" and "\<forall>c\<in>set r. isWhiteSpace c"
  shows "trim (l @ s @ r) = s"
proof (cases "s = []")
  case True
  have "trim (l @ r) = []" by (rule trim_all_white) (use assms(2,3) in auto)
  with True show ?thesis by simp
next
  case False
  from trim_fixed_ends[OF assms(1) False]
  have h: "\<not> isWhiteSpace (hd s)" and t: "\<not> isWhiteSpace (last s)" by simp_all
  from False h have d: "dropWhile isWhiteSpace (s @ r) = s @ r"
    by (cases s) auto
  from False t have "\<not> isWhiteSpace (hd (rev s))" by (simp add: hd_rev)
  with False have e: "dropWhile isWhiteSpace (rev s) = rev s"
    by (cases "rev s") auto
  have "dropWhile isWhiteSpace (rev r @ rev s) = dropWhile isWhiteSpace (rev s)"
    using assms(3) by (intro dropWhile_all) simp
  with d e assms(2) show ?thesis
    by (simp add: trim_def dropWhile_all)
qed

lemma lowerChar_white: "isWhiteSpace c \<Longrightarrow> lowerChar c = c"
  by (auto simp: isWhiteSpace_def lowerChar_def isUpperCase_def Let_def)

lemma lowerChar_not_upper: "\<not> isUpperCase (lowerChar c)"
proof (cases "isUpperCase c")
  case False
  then show ?thesis by (simp add: lowerChar_def)
next
  case True
  then have "(of_char c :: nat) + 32 < 256" by (auto simp: isUpperCase_def Let_def)
  then have "(of_char (char_of ((of_char c :: nat) + 32)) :: nat) = of_char c + 32"
    by simp
  with True show ?thesis by (auto simp: lowerChar_def isUpperCase_def Let_def)
qed

lemma toLowerCase_not_upper: "\<forall>c\<in>set (toLowerCase s). \<not> isUpperCase c"
  by (auto simp: toLowerCase_def lowerChar_not_upper)


lemma toLowerCase_white: "\<forall>c\<in>set l. isWhiteSpace c \<Longrightarrow> toLowerCase l = l"
  by (induction l) (auto simp: toLowerCase_def lowerChar_white)

lemma toLowerCase_append: "toLowerCase (a @ b) = toLowerCase a @ toLowerCase b"
  by (simp add: toLowerCase_def)

lemma findOne_None_iff: "findOne db e = None \<longleftrightarrow> (\<forall>u\<in>set db. email u \<noteq> e)"
  by (auto simp: findOne_def find_None_iff)

lemma fold_max_ge: "a \<le> fold max xs (a::nat)"
  by (induction xs arbitrary: a) (auto intro: order_trans[OF max.cobounded2])

lemma fold_max_mem: "x \<in> set xs \<Longrightarrow> x \<le> fold max xs (a::nat)"
proof (induction xs arbitrary: a)
  case Nil
  then show ?case by simp
next
  case (Cons y ys)
  show ?case
  proof (cases "x = y")
    case True
    have "max y a \<le> fold max ys (max y a)" by (rule fold_max_ge)
    with True show ?thesis by simp
  next
    case False
    with Cons.prems have "x \<in> set ys" by simp
    then show ?thesis using Cons.IH by simp
  qed
qed

lemma newObjectId_fresh: "u \<in> set db \<Longrightarrow> user_id u \<noteq> newObjectId db"
proof
  assume mem: "u \<in> set db" and eq: "user_id u = newObjectId db"
  from mem have "user_id u \<in> set (map user_id db)" by simp
  then have "user_id u \<le> fold max (map user_id db) 0" by (rule fold_max_mem)
  with eq show False by (simp add: newObjectId_def)
qed

lemma includes_password:
  "str_includes s ''Current password is incorrect'' \<Longrightarrow> str_includes s ''password''"
proof -
  have "sublist ''password'' ''Current password is incorrect''"
    by (simp add: sublist_code(3))
  then show "str_includes s ''Current password is incorrect'' \<Longrightarrow> str_includes s ''password''"
    unfolding str_includes_def by (rule sublist_order.order.trans)
qed


lemma saveNew_ok:
  "findOne db (email d) = None \<Longrightarrow>
     saveNew h db d = Inr (d\<lparr>password := hashHook h (password d)\<rparr>,
                           db @ [d\<lparr>password := hashHook h (password d)\<rparr>])"
  by (auto simp: saveNew_def findOne_None_iff list_ex_iff Let_def)

lemma saveNew_dup:
  "u \<in> set db \<Longrightarrow> email u = email d \<Longrightarrow> saveNew h db d = Inl \<lparr>code = Some 11000\<rparr>"
  by (auto simp: saveNew_def list_ex_iff)

text \<open>The run of the creation handler once the three validation checks have passed.\<close>

lemma POST_try_valid:
  assumes "jsonBody request ''name'' = Some n" and "n \<noteq> []"
    and "jsonBody request ''email'' = Some e" and "e \<noteq> []"
    and "jsonBody request ''oldPassword'' = Some old" and "old \<noteq> []"
    and "jsonBody request ''newPassword'' = Some new" and "6 \<le> length new"
    and "old \<noteq> new"
  shows "POST_try h db request =
     (case findOne db (toLowerCase e) of
        Some existingUser \<Rightarrow>
          (Inr (failure ''User with this email already exists'' 400), db,
           [ConnectToDatabase, RequestJson, FindOne (toLowerCase e)])
      | None \<Rightarrow>
          (case saveNew h db (newUser db (trim n) (trim (toLowerCase e)) new
                  (case jsonBody request ''role'' of None \<Rightarrow> ''tester'' | Some r \<Rightarrow> r)) of
             Inl err \<Rightarrow>
               (Inl err, db,
                [ConnectToDatabase, RequestJson, FindOne (toLowerCase e),
                 Save (newUser db (trim n) (trim (toLowerCase e)) new
                  (case jsonBody request ''role'' of None \<Rightarrow> ''tester'' | Some r \<Rightarrow> r))])
           | Inr (savedUser, db') \<Rightarrow>
               (Inr (create_ok savedUser), db',
                [ConnectToDatabase, RequestJson, FindOne (toLowerCase e),
                 Save (newUser db (trim n) (trim (toLowerCase e)) new
                  (case jsonBody request ''role'' of None \<Rightarrow> ''tester'' | Some r \<Rightarrow> r))])))"
proof -
  from assms(8) have "new \<noteq> []" by auto
  with assms show ?thesis
    by (simp add: POST_try_def falsy_def str_def Let_def split: option.splits sum.splits)
qed

text \<open>What \<^verbatim>\<open>trim\<close> returns is made of characters of its argument and has no white space
  at either end.\<close>

lemma set_trim: "set (trim s) \<subseteq> set s"
proof -
  have "set (trim s) \<subseteq> set (dropWhile isWhiteSpace s)"
    unfolding trim_def using set_dropWhileD by fastforce
  also have "\<dots> \<subseteq> set s" using set_dropWhileD by fastforce
  finally show ?thesis .
qed

lemma trim_ends:
  assumes "trim s \<noteq> []"
  shows "\<not> isWhiteSpace (hd (trim s)) \<and> \<not> isWhiteSpace (last (trim s))"
proof -
  let ?d = "dropWhile isWhiteSpace s"
  let ?r = "dropWhile isWhiteSpace (rev ?d)"
  have t: "trim s = rev ?r" by (simp add: trim_def)
  with assms have r: "?r \<noteq> []" by simp
  have d: "?d \<noteq> []"
  proof
    assume e: "?d = []"
    from r show False unfolding e by simp
  qed
  from r have l: "\<not> isWhiteSpace (hd ?r)" by (rule hd_dropWhile)
  from d have h: "\<not> isWhiteSpace (hd ?d)" by (rule hd_dropWhile)
  have "rev ?d = takeWhile isWhiteSpace (rev ?d) @ ?r" by simp
  with r have "last ?r = last (rev ?d)" by (metis last_appendR)
  with d have "last ?r = hd ?d" by (simp add: last_rev)
  with h l r t show ?thesis by (simp add: hd_rev last_rev)
qed


text \<open>An email padded with white space is not a trimmed string.\<close>

lemma padded_not_trimmed:
  assumes "trim s = s" and "\<forall>c\<in>set l. isWhiteSpace c" and "\<forall>c\<in>set r. isWhiteSpace c"
    and "l \<noteq> [] \<or> r \<noteq> []"
  shows "trim (l @ s @ r) \<noteq> l @ s @ r"
proof
  assume "trim (l @ s @ r) = l @ s @ r"
  with trim_padded[OF assms(1-3)] have "length s = length (l @ s @ r)" by simp
  with assms(4) show False by auto
qed

section \<open>Claims about the password-change handler\<close>

text \<open>
  C1. For a request with a resolved caller identity, both fields present (holding a
  non-empty string, which is how the handler tests presence), a new password of at
  least 6 characters, a matching active record, an old password that verifies against
  the stored hash and a new password that does not: the handler
  answers 200 with a body of exactly \<open>success\<close> and \<open>message\<close>, hands the record with its
  password overwritten by the new password to the store's save, and afterwards the
  record found under the caller's identifier holds the hash of the new password, which
  verifies against the new password and not against the old one. The hasher is assumed
  to meet the spec's contract (\<open>sound_hasher\<close>).
\<close>

theorem change_password_success:
  assumes "sound_hasher h"
    and "userPayload request = Some uid"
    and "jsonBody request ''oldPassword'' = Some old" and "old \<noteq> []"
    and "jsonBody request ''newPassword'' = Some new" and "6 \<le> length new"
    and "findById db uid = Some u" and "isActive u"
    and "verify h old (password u)" and "\<not> verify h new (password u)"
  shows "fst (PUT h db request) =
           \<lparr>status = 200,
            body = JObj [(''success'', JBool True),
                         (''message'', JStr ''Password changed successfully'')]\<rparr>
       \<and> fst (snd (PUT h db request)) = saveExisting h db (u\<lparr>password := new\<rparr>)
       \<and> last (snd (snd (PUT h db request))) = Save (u\<lparr>password := new\<rparr>)
       \<and> findById (fst (snd (PUT h db request))) uid = Some (u\<lparr>password := hashHook h new\<rparr>)
       \<and> verify h new (hashHook h new)
       \<and> \<not> verify h old (hashHook h new)"
proof -
  have run: "PUT h db request =
      (change_ok, saveExisting h db (u\<lparr>password := new\<rparr>),
       [ConnectToDatabase, GetUserFromRequest, RequestJson, FindById uid,
        ComparePassword old, ComparePassword new, Save (u\<lparr>password := new\<rparr>)])"
    using assms(2-10) by (rule PUT_success)
  have uid: "user_id u = uid" using assms(7) by (rule findById_Some_id)
  have stored: "findById (saveExisting h db (u\<lparr>password := new\<rparr>)) uid
                  = Some (u\<lparr>password := hashHook h new\<rparr>)"
    using findById_updateOne[OF assms(7), of "u\<lparr>password := hashHook h new\<rparr>"] uid
    by (simp add: saveExisting_def)
  have "old \<noteq> new" using assms(9,10) by auto
  then have fresh: "verify h new (hashHook h new) \<and> \<not> verify h old (hashHook h new)"
    using assms(1) by (simp add: sound_hasher_def)
  show ?thesis using run stored fresh by (simp add: change_ok_def)
qed

theorem change_password_success_witness:
  "sound_hasher demo_hasher
   \<and> findById [demo_user] 1 = Some demo_user
   \<and> fst (PUT demo_hasher [demo_user] change_request) =
       \<lparr>status = 200,
        body = JObj [(''success'', JBool True),
                     (''message'', JStr ''Password changed successfully'')]\<rparr>
   \<and> fst (snd (PUT demo_hasher [demo_user] change_request)) = [demo_user\<lparr>password := ''#secret1''\<rparr>]
   \<and> verify demo_hasher ''secret1'' ''#secret1''
   \<and> \<not> verify demo_hasher ''default1'' ''#secret1''"
proof -
  have f: "findById [demo_user] 1 = Some demo_user"
    by (simp add: findById_def demo_user_def)
  have hyps: "userPayload change_request = Some 1"
    "jsonBody change_request ''oldPassword'' = Some ''default1''" "''default1'' \<noteq> []"
    "jsonBody change_request ''newPassword'' = Some ''secret1''" "6 \<le> length ''secret1''"
    "isActive demo_user"
    "verify demo_hasher ''default1'' (password demo_user)"
    "\<not> verify demo_hasher ''secret1'' (password demo_user)"
    by (simp_all add: change_request_def demo_user_def demo_hasher_def)
  from change_password_success[OF demo_hasher_sound hyps(1-5) f hyps(6-8)]
  show ?thesis using f demo_hasher_sound
    by (simp add: saveExisting_def demo_user_def demo_hasher_def)
qed

text \<open>
  C2. Whenever the handler returns anything but the success response, the collection is
  returned as it was and no save is issued. Whenever it returns the success response,
  the collection splits as \<open>pre @ u # post\<close> and comes back as \<open>pre @ u' # post\<close>,
  where \<open>u'\<close> is \<open>u\<close> with the hash of the new password as its password: one record is
  rewritten, it differs from the record read in its password field only, the handler
  issued exactly one save, and with a hasher that meets the spec's contract the
  password field does change.
\<close>

theorem change_password_frame:
  "(fst (PUT h db request) \<noteq> change_ok \<longrightarrow>
      fst (snd (PUT h db request)) = db
      \<and> (\<forall>d. Save d \<notin> set (snd (snd (PUT h db request)))))
   \<and> (fst (PUT h db request) = change_ok \<longrightarrow>
      (\<exists>pre u post new. db = pre @ u # post
         \<and> jsonBody request ''newPassword'' = Some new
         \<and> fst (snd (PUT h db request)) = pre @ u\<lparr>password := hashHook h new\<rparr> # post
         \<and> (sound_hasher h \<longrightarrow> hashHook h new \<noteq> password u)
         \<and> (\<exists>d. filter (\<lambda>e. case e of Save x \<Rightarrow> True | _ \<Rightarrow> False)
                   (snd (snd (PUT h db request))) = [Save d])))"
proof (rule conjI; rule impI)
  assume "fst (PUT h db request) \<noteq> change_ok"
  then show "fst (snd (PUT h db request)) = db
      \<and> (\<forall>d. Save d \<notin> set (snd (snd (PUT h db request))))"
    by (rule PUT_failure_frame)
next
  assume ok: "fst (PUT h db request) = change_ok"
  from PUT_ok_inv[OF ok] obtain uid old new u where
    c: "userPayload request = Some uid"
       "jsonBody request ''oldPassword'' = Some old" "old \<noteq> []"
       "jsonBody request ''newPassword'' = Some new" "6 \<le> length new"
       "findById db uid = Some u" "isActive u"
       "verify h old (password u)" "\<not> verify h new (password u)" by blast
  note run = PUT_success[OF c]
  from findById_split[OF c(6)] obtain pre post where
    s: "db = pre @ u # post" "\<forall>x\<in>set pre. user_id x \<noteq> uid" "user_id u = uid" by blast
  have "saveExisting h db (u\<lparr>password := new\<rparr>) = pre @ u\<lparr>password := hashHook h new\<rparr> # post"
    using s by (simp add: saveExisting_def updateOne_split)
  moreover have "sound_hasher h \<longrightarrow> hashHook h new \<noteq> password u"
  proof
    assume "sound_hasher h"
    then have "verify h new (hashHook h new)" by (simp add: sound_hasher_def)
    with c(9) show "hashHook h new \<noteq> password u" by auto
  qed
  ultimately have "db = pre @ u # post
         \<and> jsonBody request ''newPassword'' = Some new
         \<and> fst (snd (PUT h db request)) = pre @ u\<lparr>password := hashHook h new\<rparr> # post
         \<and> (sound_hasher h \<longrightarrow> hashHook h new \<noteq> password u)
         \<and> (\<exists>d. filter (\<lambda>e. case e of Save x \<Rightarrow> True | _ \<Rightarrow> False)
                   (snd (snd (PUT h db request))) = [Save d])"
    using run s(1) c(4) by simp
  then show "\<exists>pre u post new. db = pre @ u # post
         \<and> jsonBody request ''newPassword'' = Some new
         \<and> fst (snd (PUT h db request)) = pre @ u\<lparr>password := hashHook h new\<rparr> # post
         \<and> (sound_hasher h \<longrightarrow> hashHook h new \<noteq> password u)
         \<and> (\<exists>d. filter (\<lambda>e. case e of Save x \<Rightarrow> True | _ \<Rightarrow> False)
                   (snd (snd (PUT h db request))) = [Save d])"
    by blast
qed

theorem change_password_frame_witness:
  "fst (PUT demo_hasher [demo_user] (change_request\<lparr>userPayload := Some 2\<rparr>)) \<noteq> change_ok
   \<and> fst (snd (PUT demo_hasher [demo_user] (change_request\<lparr>userPayload := Some 2\<rparr>))) = [demo_user]
   \<and> fst (PUT demo_hasher [demo_user] change_request) = change_ok
   \<and> fst (snd (PUT demo_hasher [demo_user] change_request)) = [demo_user\<lparr>password := ''#secret1''\<rparr>]"
proof -
  have bad: "fst (PUT demo_hasher [demo_user] (change_request\<lparr>userPayload := Some 2\<rparr>)) \<noteq> change_ok"
    by (simp add: PUT_def demo_defs Let_def falsy_def str_def findById_def failure_def change_ok_def)
  with change_password_frame[of demo_hasher "[demo_user]" "change_request\<lparr>userPayload := Some 2\<rparr>"]
  have "fst (snd (PUT demo_hasher [demo_user] (change_request\<lparr>userPayload := Some 2\<rparr>))) = [demo_user]"
    by blast
  with bad change_password_frame[of demo_hasher "[demo_user]" change_request]
  show ?thesis by (simp add: demo_change_run)
qed

text \<open>
  C3. The handler's failure conditions in the order it checks them, each under the
  failure of all earlier ones: no caller identity gives 401 with the body never read
  (no \<open>RequestJson\<close> in the calls made); a falsy \<open>oldPassword\<close> or \<open>newPassword\<close> gives
  400, then a new password shorter than 6 gives 400, both before any lookup; no record
  under the caller's identifier gives 404; an inactive record gives 401; an old
  password that the record's comparison rejects gives 400; a new password that the
  record's comparison accepts gives 400. The last condition is the comparison
  capability applied to \<open>newPassword\<close>: the request's \<open>oldPassword\<close> enters it only
  through the check before.
\<close>

theorem change_password_check_order:
  "(userPayload request = None \<longrightarrow>
      PUT h db request = (failure ''Unauthorized'' 401, db, [ConnectToDatabase, GetUserFromRequest]))
   \<and> (userPayload request = Some uid \<and> jsonBody request ''oldPassword'' = old
        \<and> jsonBody request ''newPassword'' = new \<longrightarrow>
      (falsy old \<or> falsy new \<longrightarrow>
         PUT h db request =
           (failure ''Old password and new password are required'' 400, db,
            [ConnectToDatabase, GetUserFromRequest, RequestJson]))
      \<and> (\<not> falsy old \<and> \<not> falsy new \<and> length (str new) < 6 \<longrightarrow>
         PUT h db request =
           (failure ''New password must be at least 6 characters long'' 400, db,
            [ConnectToDatabase, GetUserFromRequest, RequestJson]))
      \<and> (\<not> falsy old \<and> \<not> falsy new \<and> 6 \<le> length (str new) \<longrightarrow>
         (findById db uid = None \<longrightarrow>
            PUT h db request =
              (failure ''User not found'' 404, db,
               [ConnectToDatabase, GetUserFromRequest, RequestJson, FindById uid]))
         \<and> (findById db uid = Some u \<and> \<not> isActive u \<longrightarrow>
            PUT h db request =
              (failure ''Account is deactivated'' 401, db,
               [ConnectToDatabase, GetUserFromRequest, RequestJson, FindById uid]))
         \<and> (findById db uid = Some u \<and> isActive u \<and> \<not> verify h (str old) (password u) \<longrightarrow>
            PUT h db request =
              (failure ''Current password is incorrect'' 400, db,
               [ConnectToDatabase, GetUserFromRequest, RequestJson, FindById uid,
                ComparePassword (str old)]))
         \<and> (findById db uid = Some u \<and> isActive u \<and> verify h (str old) (password u)
              \<and> verify h (str new) (password u) \<longrightarrow>
            PUT h db request =
              (failure ''New password must be different from current password'' 400, db,
               [ConnectToDatabase, GetUserFromRequest, RequestJson, FindById uid,
                ComparePassword (str old), ComparePassword (str new)]))))"
  by (simp add: PUT_def Let_def comparePassword_def)


theorem change_password_check_order_witness:
  "PUT demo_hasher [demo_user] anon_request =
     (failure ''Unauthorized'' 401, [demo_user], [ConnectToDatabase, GetUserFromRequest])
   \<and> PUT demo_hasher [demo_user] (change_request\<lparr>jsonBody := [''newPassword'' \<mapsto> ''secret1'']\<rparr>) =
     (failure ''Old password and new password are required'' 400, [demo_user],
      [ConnectToDatabase, GetUserFromRequest, RequestJson])
   \<and> PUT demo_hasher [demo_user]
       (change_request\<lparr>jsonBody := [''oldPassword'' \<mapsto> ''default1'', ''newPassword'' \<mapsto> ''abc'']\<rparr>) =
     (failure ''New password must be at least 6 characters long'' 400, [demo_user],
      [ConnectToDatabase, GetUserFromRequest, RequestJson])
   \<and> PUT demo_hasher [demo_user] (change_request\<lparr>userPayload := Some 2\<rparr>) =
     (failure ''User not found'' 404, [demo_user],
      [ConnectToDatabase, GetUserFromRequest, RequestJson, FindById 2])
   \<and> PUT demo_hasher [demo_user\<lparr>isActive := False\<rparr>] change_request =
     (failure ''Account is deactivated'' 401, [demo_user\<lparr>isActive := False\<rparr>],
      [ConnectToDatabase, GetUserFromRequest, RequestJson, FindById 1])
   \<and> PUT demo_hasher [demo_user]
       (change_request\<lparr>jsonBody := [''oldPassword'' \<mapsto> ''wrong'', ''newPassword'' \<mapsto> ''secret1'']\<rparr>) =
     (failure ''Current password is incorrect'' 400, [demo_user],
      [ConnectToDatabase, GetUserFromRequest, RequestJson, FindById 1, ComparePassword ''wrong''])
   \<and> PUT demo_hasher [demo_user]
       (change_request\<lparr>jsonBody := [''oldPassword'' \<mapsto> ''default1'', ''newPassword'' \<mapsto> ''default1'']\<rparr>) =
     (failure ''New password must be different from current password'' 400, [demo_user],
      [ConnectToDatabase, GetUserFromRequest, RequestJson, FindById 1,
       ComparePassword ''default1'', ComparePassword ''default1''])"
proof -
  note t = change_password_check_order[where h = demo_hasher]
  have 1: "PUT demo_hasher [demo_user] anon_request =
     (failure ''Unauthorized'' 401, [demo_user], [ConnectToDatabase, GetUserFromRequest])"
    using t[where request = anon_request and db = "[demo_user]"]
    by (simp add: demo_defs)
  have 2: "PUT demo_hasher [demo_user] (change_request\<lparr>jsonBody := [''newPassword'' \<mapsto> ''secret1'']\<rparr>) =
     (failure ''Old password and new password are required'' 400, [demo_user],
      [ConnectToDatabase, GetUserFromRequest, RequestJson])"
    using t[where request = "change_request\<lparr>jsonBody := [''newPassword'' \<mapsto> ''secret1'']\<rparr>"
              and db = "[demo_user]" and uid = 1 and old = None and new = "Some ''secret1''"]
    by (simp add: demo_defs falsy_def)
  have 3: "PUT demo_hasher [demo_user]
       (change_request\<lparr>jsonBody := [''oldPassword'' \<mapsto> ''default1'', ''newPassword'' \<mapsto> ''abc'']\<rparr>) =
     (failure ''New password must be at least 6 characters long'' 400, [demo_user],
      [ConnectToDatabase, GetUserFromRequest, RequestJson])"
    using t[where request = "change_request\<lparr>jsonBody := [''oldPassword'' \<mapsto> ''default1'', ''newPassword'' \<mapsto> ''abc'']\<rparr>"
              and db = "[demo_user]" and uid = 1 and old = "Some ''default1''" and new = "Some ''abc''"]
    by (simp add: demo_defs falsy_def str_def)
  have 4: "PUT demo_hasher [demo_user] (change_request\<lparr>userPayload := Some 2\<rparr>) =
     (failure ''User not found'' 404, [demo_user],
      [ConnectToDatabase, GetUserFromRequest, RequestJson, FindById 2])"
    using t[where request = "change_request\<lparr>userPayload := Some 2\<rparr>"
              and db = "[demo_user]" and uid = 2 and old = "Some ''default1''" and new = "Some ''secret1''"]
    by (simp add: demo_defs falsy_def str_def findById_def)
  have 5: "PUT demo_hasher [demo_user\<lparr>isActive := False\<rparr>] change_request =
     (failure ''Account is deactivated'' 401, [demo_user\<lparr>isActive := False\<rparr>],
      [ConnectToDatabase, GetUserFromRequest, RequestJson, FindById 1])"
    using t[where request = change_request and db = "[demo_user\<lparr>isActive := False\<rparr>]" and uid = 1
              and old = "Some ''default1''" and new = "Some ''secret1''"
              and u = "demo_user\<lparr>isActive := False\<rparr>"]
    by (simp add: demo_defs falsy_def str_def findById_def)
  have 6: "PUT demo_hasher [demo_user]
       (change_request\<lparr>jsonBody := [''oldPassword'' \<mapsto> ''wrong'', ''newPassword'' \<mapsto> ''secret1'']\<rparr>) =
     (failure ''Current password is incorrect'' 400, [demo_user],
      [ConnectToDatabase, GetUserFromRequest, RequestJson, FindById 1, ComparePassword ''wrong''])"
    using t[where request = "change_request\<lparr>jsonBody := [''oldPassword'' \<mapsto> ''wrong'', ''newPassword'' \<mapsto> ''secret1'']\<rparr>"
              and db = "[demo_user]" and uid = 1 and old = "Some ''wrong''" and new = "Some ''secret1''"
              and u = demo_user]
    by (simp add: demo_defs falsy_def str_def findById_def)
  have 7: "PUT demo_hasher [demo_user]
       (change_request\<lparr>jsonBody := [''oldPassword'' \<mapsto> ''default1'', ''newPassword'' \<mapsto> ''default1'']\<rparr>) =
     (failure ''New password must be different from current password'' 400, [demo_user],
      [ConnectToDatabase, GetUserFromRequest, RequestJson, FindById 1,
       ComparePassword ''default1'', ComparePassword ''default1''])"
    using t[where request = "change_request\<lparr>jsonBody := [''oldPassword'' \<mapsto> ''default1'', ''newPassword'' \<mapsto> ''default1'']\<rparr>"
              and db = "[demo_user]" and uid = 1 and old = "Some ''default1''" and new = "Some ''default1''"
              and u = demo_user]
    by (simp add: demo_defs falsy_def str_def findById_def)
  from 1 2 3 4 5 6 7 show ?thesis by blast
qed

text \<open>
  C7. After a password change that returned the success response, the same request
  against the resulting collection gets the 400 response for a wrong current password
  and leaves that collection as it is. The hasher is assumed to meet the spec's contract
  (\<open>sound_hasher\<close>); that the old and the new password differ follows from the first
  call's success.
\<close>

theorem replay_fails:
  assumes "sound_hasher h" and "fst (PUT h db request) = change_ok"
  shows "fst (PUT h (fst (snd (PUT h db request))) request) = failure ''Current password is incorrect'' 400
       \<and> fst (snd (PUT h (fst (snd (PUT h db request))) request)) = fst (snd (PUT h db request))"
proof -
  from PUT_ok_inv[OF assms(2)] obtain uid old new u where
    c: "userPayload request = Some uid"
       "jsonBody request ''oldPassword'' = Some old" "old \<noteq> []"
       "jsonBody request ''newPassword'' = Some new" "6 \<le> length new"
       "findById db uid = Some u" "isActive u"
       "verify h old (password u)" "\<not> verify h new (password u)" by blast
  note run = PUT_success[OF c]
  have uid: "user_id u = uid" using c(6) by (rule findById_Some_id)
  have stored: "findById (saveExisting h db (u\<lparr>password := new\<rparr>)) uid
                  = Some (u\<lparr>password := hashHook h new\<rparr>)"
    using findById_updateOne[OF c(6), of "u\<lparr>password := hashHook h new\<rparr>"] uid
    by (simp add: saveExisting_def)
  have "old \<noteq> new" using c(8,9) by auto
  then have stale: "\<not> verify h old (hashHook h new)"
    using assms(1) by (simp add: sound_hasher_def)
  from c(5) have "new \<noteq> []" by auto
  then have "PUT h (saveExisting h db (u\<lparr>password := new\<rparr>)) request =
      (failure ''Current password is incorrect'' 400, saveExisting h db (u\<lparr>password := new\<rparr>),
       [ConnectToDatabase, GetUserFromRequest, RequestJson, FindById uid, ComparePassword old])"
    using c stored stale
    by (simp add: PUT_def falsy_def str_def comparePassword_def Let_def)
  with run show ?thesis by simp
qed


theorem replay_fails_witness:
  "sound_hasher demo_hasher
   \<and> fst (PUT demo_hasher [demo_user] change_request) = change_ok
   \<and> fst (PUT demo_hasher [demo_user\<lparr>password := ''#secret1''\<rparr>] change_request) =
       failure ''Current password is incorrect'' 400
   \<and> fst (snd (PUT demo_hasher [demo_user\<lparr>password := ''#secret1''\<rparr>] change_request)) =
       [demo_user\<lparr>password := ''#secret1''\<rparr>]"
proof -
  have ok: "fst (PUT demo_hasher [demo_user] change_request) = change_ok"
    by (simp add: demo_change_run)
  from replay_fails[OF demo_hasher_sound ok] demo_hasher_sound ok
  show ?thesis by (simp add: demo_change_run)
qed

section \<open>Claims about the account-creation handler\<close>

text \<open>
  C4. The three validation checks of the creation handler, in the order it applies them,
  each under the failure of the earlier ones: a falsy \<open>name\<close>, \<open>email\<close>, \<open>oldPassword\<close>
  or \<open>newPassword\<close>; a new password shorter than 6; an old password equal to the new
  one. Each answers 400 with the collection unchanged and only the connection and the
  body read among the calls made, so no lookup of existing users has happened; and
  whenever any of the three conditions holds, the response is a 400 of that kind.
\<close>

theorem create_account_validation:
  assumes "jsonBody request ''name'' = n" and "jsonBody request ''email'' = e"
    and "jsonBody request ''oldPassword'' = old" and "jsonBody request ''newPassword'' = new"
  shows
   "(falsy n \<or> falsy e \<or> falsy old \<or> falsy new \<longrightarrow>
       POST h db request =
         (failure ''All fields are required'' 400, db, [ConnectToDatabase, RequestJson]))
    \<and> (\<not> falsy n \<and> \<not> falsy e \<and> \<not> falsy old \<and> \<not> falsy new \<and> length (str new) < 6 \<longrightarrow>
       POST h db request =
         (failure ''New password must be at least 6 characters long'' 400, db,
          [ConnectToDatabase, RequestJson]))
    \<and> (\<not> falsy n \<and> \<not> falsy e \<and> \<not> falsy old \<and> \<not> falsy new \<and> 6 \<le> length (str new)
         \<and> old = new \<longrightarrow>
       POST h db request =
         (failure ''New password must be different from the old password'' 400, db,
          [ConnectToDatabase, RequestJson]))
    \<and> (falsy n \<or> falsy e \<or> falsy old \<or> falsy new \<or> length (str new) < 6 \<or> old = new \<longrightarrow>
       status (fst (POST h db request)) = 400
       \<and> fst (snd (POST h db request)) = db
       \<and> snd (snd (POST h db request)) = [ConnectToDatabase, RequestJson])"
  using assms by (auto simp: POST_def POST_try_def Let_def failure_def)

theorem create_account_validation_witness:
  "POST demo_hasher [] (create_request\<lparr>jsonBody := (jsonBody create_request)(''name'' := None)\<rparr>) =
     (failure ''All fields are required'' 400, [], [ConnectToDatabase, RequestJson])
   \<and> POST demo_hasher [] short_create_request =
     (failure ''New password must be at least 6 characters long'' 400, [],
      [ConnectToDatabase, RequestJson])
   \<and> POST demo_hasher []
       (create_request\<lparr>jsonBody := (jsonBody create_request)(''oldPassword'' \<mapsto> ''secret1'')\<rparr>) =
     (failure ''New password must be different from the old password'' 400, [],
      [ConnectToDatabase, RequestJson])"
proof -
  have 1: "POST demo_hasher [] (create_request\<lparr>jsonBody := (jsonBody create_request)(''name'' := None)\<rparr>) =
     (failure ''All fields are required'' 400, [], [ConnectToDatabase, RequestJson])"
    using create_account_validation[of
        "create_request\<lparr>jsonBody := (jsonBody create_request)(''name'' := None)\<rparr>"
        None "Some ''a@x.com''" "Some ''default1''" "Some ''secret1''" demo_hasher "[]"]
    by (simp add: create_defs falsy_def)
  have 2: "POST demo_hasher [] short_create_request =
     (failure ''New password must be at least 6 characters long'' 400, [],
      [ConnectToDatabase, RequestJson])"
    using create_account_validation[of short_create_request
        "Some ''A''" "Some ''a@x.com''" "Some ''default1''" "Some ''abc''" demo_hasher "[]"]
    by (simp add: create_defs falsy_def str_def)
  have 3: "POST demo_hasher []
       (create_request\<lparr>jsonBody := (jsonBody create_request)(''oldPassword'' \<mapsto> ''secret1'')\<rparr>) =
     (failure ''New password must be different from the old password'' 400, [],
      [ConnectToDatabase, RequestJson])"
    using create_account_validation[of
        "create_request\<lparr>jsonBody := (jsonBody create_request)(''oldPassword'' \<mapsto> ''secret1'')\<rparr>"
        "Some ''A''" "Some ''a@x.com''" "Some ''secret1''" "Some ''secret1''" demo_hasher "[]"]
    by (simp add: create_defs falsy_def str_def)
  from 1 2 3 show ?thesis by blast
qed

text \<open>
  C6. For a request with all four fields present, a new password of at least 6
  characters that differs from the old one, and an email that no record holds (neither
  lower-cased as the handler looks it up nor lower-cased and trimmed as the handler
  stores it): the handler appends exactly one record with a fresh identifier, the
  trimmed name, the lower-cased and trimmed email, the hash of the new password, the
  role of the request or \<open>tester\<close> when the request has none, and the active flag set;
  the 200 response carries that record's identifier, name, email, role and active flag
  and no password. Lower-casing keeps the length of the email, the stored email holds
  no capital letter, and neither the stored email nor the stored name begins or ends
  with white space.
\<close>

theorem create_account_success:
  assumes "jsonBody request ''name'' = Some n" and "n \<noteq> []"
    and "jsonBody request ''email'' = Some e" and "e \<noteq> []"
    and "jsonBody request ''oldPassword'' = Some old" and "old \<noteq> []"
    and "jsonBody request ''newPassword'' = Some new" and "6 \<le> length new"
    and "old \<noteq> new"
    and "findOne db (toLowerCase e) = None" and "findOne db (trim (toLowerCase e)) = None"
  shows "POST h db request =
     (\<lparr>status = 200,
       body = JObj
         [(''success'', JBool True),
          (''data'', JObj [(''user'', JObj
             [(''_id'', JId (newObjectId db)),
              (''name'', JStr (trim n)),
              (''email'', JStr (trim (toLowerCase e))),
              (''role'', JStr (case jsonBody request ''role'' of None \<Rightarrow> ''tester'' | Some r \<Rightarrow> r)),
              (''isActive'', JBool True)])]),
          (''message'', JStr ''Account created successfully'')]\<rparr>,
      db @ [\<lparr>user_id = newObjectId db, name = trim n, email = trim (toLowerCase e),
             password = hashHook h new,
             role = (case jsonBody request ''role'' of None \<Rightarrow> ''tester'' | Some r \<Rightarrow> r),
             isActive = True\<rparr>],
      [ConnectToDatabase, RequestJson, FindOne (toLowerCase e),
       Save \<lparr>user_id = newObjectId db, name = trim n, email = trim (toLowerCase e),
             password = new,
             role = (case jsonBody request ''role'' of None \<Rightarrow> ''tester'' | Some r \<Rightarrow> r),
             isActive = True\<rparr>])
   \<and> newObjectId db \<notin> user_id ` set db
   \<and> length (toLowerCase e) = length e
   \<and> (\<forall>c\<in>set (trim (toLowerCase e)). \<not> isUpperCase c)
   \<and> (trim (toLowerCase e) \<noteq> [] \<longrightarrow>
        \<not> isWhiteSpace (hd (trim (toLowerCase e))) \<and> \<not> isWhiteSpace (last (trim (toLowerCase e))))
   \<and> (trim n \<noteq> [] \<longrightarrow> \<not> isWhiteSpace (hd (trim n)) \<and> \<not> isWhiteSpace (last (trim n)))"
proof -
  let ?r = "case jsonBody request ''role'' of None \<Rightarrow> ''tester'' | Some r \<Rightarrow> r"
  let ?d = "newUser db (trim n) (trim (toLowerCase e)) new ?r"
  have "findOne db (email ?d) = None" using assms(11) by (simp add: newUser_def)
  then have sv: "saveNew h db ?d = Inr (?d\<lparr>password := hashHook h (password ?d)\<rparr>,
                           db @ [?d\<lparr>password := hashHook h (password ?d)\<rparr>])"
    by (rule saveNew_ok)
  have run: "POST_try h db request =
      (Inr (create_ok (?d\<lparr>password := hashHook h (password ?d)\<rparr>)),
       db @ [?d\<lparr>password := hashHook h (password ?d)\<rparr>],
       [ConnectToDatabase, RequestJson, FindOne (toLowerCase e), Save ?d])"
    using POST_try_valid[OF assms(1-9), of h db] assms(10) sv by simp
  have fresh: "newObjectId db \<notin> user_id ` set db"
  proof
    assume "newObjectId db \<in> user_id ` set db"
    then obtain u where "u \<in> set db" and "newObjectId db = user_id u" by auto
    with newObjectId_fresh[of u db] show False by simp
  qed
  have low: "\<forall>c\<in>set (trim (toLowerCase e)). \<not> isUpperCase c"
    using set_trim[of "toLowerCase e"] toLowerCase_not_upper[of e] by blast
  have len: "length (toLowerCase e) = length e" by (simp add: toLowerCase_def)
  from run fresh low len trim_ends[of "toLowerCase e"] trim_ends[of n] show ?thesis
    by (simp add: POST_def create_ok_def newUser_def)
qed

theorem create_account_success_witness:
  "findOne [] (toLowerCase '' Ann@X.COM  '') = None
   \<and> POST demo_hasher [] mixed_create_request =
     (\<lparr>status = 200,
       body = JObj
         [(''success'', JBool True),
          (''data'', JObj [(''user'', JObj
             [(''_id'', JId 1), (''name'', JStr ''Ann''), (''email'', JStr ''ann@x.com''),
              (''role'', JStr ''tester''), (''isActive'', JBool True)])]),
          (''message'', JStr ''Account created successfully'')]\<rparr>,
      [\<lparr>user_id = 1, name = ''Ann'', email = ''ann@x.com'', password = ''#secret1'',
        role = ''tester'', isActive = True\<rparr>],
      [ConnectToDatabase, RequestJson, FindOne '' ann@x.com  '',
       Save \<lparr>user_id = 1, name = ''Ann'', email = ''ann@x.com'', password = ''secret1'',
             role = ''tester'', isActive = True\<rparr>])
   \<and> fst (snd (POST demo_hasher [demo_user]
        (mixed_create_request\<lparr>jsonBody := (jsonBody mixed_create_request)(''role'' \<mapsto> ''admin'')\<rparr>))) =
     [demo_user,
      \<lparr>user_id = 2, name = ''Ann'', email = ''ann@x.com'', password = ''#secret1'',
       role = ''admin'', isActive = True\<rparr>]"
proof -
  have lower: "toLowerCase '' Ann@X.COM  '' = '' ann@x.com  ''" by code_simp
  have tr: "trim '' ann@x.com  '' = ''ann@x.com''" "trim ''  Ann '' = ''Ann''"
    by code_simp+
  have hyps: "jsonBody mixed_create_request ''name'' = Some ''  Ann ''" "''  Ann '' \<noteq> []"
    "jsonBody mixed_create_request ''email'' = Some '' Ann@X.COM  ''" "'' Ann@X.COM  '' \<noteq> []"
    "jsonBody mixed_create_request ''oldPassword'' = Some ''default1''" "''default1'' \<noteq> []"
    "jsonBody mixed_create_request ''newPassword'' = Some ''secret1''" "6 \<le> length ''secret1''"
    "''default1'' \<noteq> ''secret1''"
    "findOne [] (toLowerCase '' Ann@X.COM  '') = None"
    "findOne [] (trim (toLowerCase '' Ann@X.COM  '')) = None"
    by (simp_all add: create_defs findOne_def)
  let ?req = "mixed_create_request\<lparr>jsonBody := (jsonBody mixed_create_request)(''role'' \<mapsto> ''admin'')\<rparr>"
  have hyps2: "jsonBody ?req ''name'' = Some ''  Ann ''"
    "jsonBody ?req ''email'' = Some '' Ann@X.COM  ''"
    "jsonBody ?req ''oldPassword'' = Some ''default1''"
    "jsonBody ?req ''newPassword'' = Some ''secret1''"
    "findOne [demo_user] (toLowerCase '' Ann@X.COM  '') = None"
    "findOne [demo_user] (trim (toLowerCase '' Ann@X.COM  '')) = None"
    by (simp_all add: create_defs findOne_def demo_defs lower tr)
  have 1: "POST demo_hasher [] mixed_create_request =
     (\<lparr>status = 200,
       body = JObj
         [(''success'', JBool True),
          (''data'', JObj [(''user'', JObj
             [(''_id'', JId 1), (''name'', JStr ''Ann''), (''email'', JStr ''ann@x.com''),
              (''role'', JStr ''tester''), (''isActive'', JBool True)])]),
          (''message'', JStr ''Account created successfully'')]\<rparr>,
      [\<lparr>user_id = 1, name = ''Ann'', email = ''ann@x.com'', password = ''#secret1'',
        role = ''tester'', isActive = True\<rparr>],
      [ConnectToDatabase, RequestJson, FindOne '' ann@x.com  '',
       Save \<lparr>user_id = 1, name = ''Ann'', email = ''ann@x.com'', password = ''secret1'',
             role = ''tester'', isActive = True\<rparr>])"
    using create_account_success[OF hyps, of demo_hasher] lower tr
    by (simp add: create_defs newObjectId_def demo_hasher_def)
  have 2: "fst (snd (POST demo_hasher [demo_user] ?req)) =
     [demo_user,
      \<lparr>user_id = 2, name = ''Ann'', email = ''ann@x.com'', password = ''#secret1'',
       role = ''admin'', isActive = True\<rparr>]"
    using create_account_success[OF hyps2(1) hyps(2) hyps2(2) hyps(4) hyps2(3) hyps(6) hyps2(4)
        hyps(8,9) hyps2(5,6), of demo_hasher] lower tr
    by (simp add: create_defs newObjectId_def demo_defs)
  from 1 2 hyps(10) show ?thesis by blast
qed


text \<open>
  C5, as amended. A request that passes the three validation checks and whose
  lower-cased email is the email of an existing record gets the 400 response
  \<open>User with this email already exists\<close> after that one lookup. A request with such
  an email that fails validation gets the 400 response of the first validation check
  it fails, before any lookup. Either way the status is 400, the collection is
  unchanged and no save is issued. An exception with code 11000 is turned by the
  \<open>catch\<close> block into the same 400 conflict response, so when the store's save raises
  the duplicate-key error the handler answers with it and the collection is unchanged.
\<close>

theorem create_account_conflict:
  assumes "jsonBody request ''name'' = n" and "jsonBody request ''email'' = e"
    and "jsonBody request ''oldPassword'' = old" and "jsonBody request ''newPassword'' = new"
  shows
   "(\<not> falsy n \<and> \<not> falsy e \<and> \<not> falsy old \<and> \<not> falsy new \<and> 6 \<le> length (str new)
       \<and> old \<noteq> new \<and> findOne db (toLowerCase (str e)) = Some x \<longrightarrow>
       POST h db request =
         (failure ''User with this email already exists'' 400, db,
          [ConnectToDatabase, RequestJson, FindOne (toLowerCase (str e))]))
    \<and> (findOne db (toLowerCase (str e)) = Some x \<longrightarrow>
       (falsy n \<or> falsy e \<or> falsy old \<or> falsy new \<longrightarrow>
          POST h db request =
            (failure ''All fields are required'' 400, db, [ConnectToDatabase, RequestJson]))
       \<and> (\<not> falsy n \<and> \<not> falsy e \<and> \<not> falsy old \<and> \<not> falsy new
            \<and> length (str new) < 6 \<longrightarrow>
          POST h db request =
            (failure ''New password must be at least 6 characters long'' 400, db,
             [ConnectToDatabase, RequestJson]))
       \<and> (\<not> falsy n \<and> \<not> falsy e \<and> \<not> falsy old \<and> \<not> falsy new
            \<and> 6 \<le> length (str new) \<and> old = new \<longrightarrow>
          POST h db request =
            (failure ''New password must be different from the old password'' 400, db,
             [ConnectToDatabase, RequestJson])))
    \<and> (findOne db (toLowerCase (str e)) = Some x \<longrightarrow>
       status (fst (POST h db request)) = 400
       \<and> fst (snd (POST h db request)) = db
       \<and> (\<forall>d. Save d \<notin> set (snd (snd (POST h db request)))))
    \<and> (code err = Some 11000 \<longrightarrow>
       POST_catch err = failure ''User with this email already exists'' 400)
    \<and> (\<not> falsy n \<and> \<not> falsy e \<and> \<not> falsy old \<and> \<not> falsy new \<and> 6 \<le> length (str new)
       \<and> old \<noteq> new \<and> findOne db (toLowerCase (str e)) = None
       \<and> saveNew h db (newUser db (trim (str n)) (trim (toLowerCase (str e))) (str new)
            (case jsonBody request ''role'' of None \<Rightarrow> ''tester'' | Some r \<Rightarrow> r)) = Inl err
       \<and> code err = Some 11000 \<longrightarrow>
       POST h db request =
         (failure ''User with this email already exists'' 400, db,
          [ConnectToDatabase, RequestJson, FindOne (toLowerCase (str e)),
           Save (newUser db (trim (str n)) (trim (toLowerCase (str e))) (str new)
            (case jsonBody request ''role'' of None \<Rightarrow> ''tester'' | Some r \<Rightarrow> r))]))"
  using assms
  by (auto simp: POST_def POST_try_def POST_catch_def Let_def failure_def)

theorem create_account_conflict_witness:
  "findOne [accent_user] (toLowerCase (CHR 0xC9 # ''@X.com'')) = Some accent_user
   \<and> POST demo_hasher [accent_user] accent_create_request =
       (failure ''User with this email already exists'' 400, [accent_user],
        [ConnectToDatabase, RequestJson, FindOne (CHR 0xE9 # ''@x.com'')])
   \<and> POST demo_hasher [demo_user] short_create_request =
       (failure ''New password must be at least 6 characters long'' 400, [demo_user],
        [ConnectToDatabase, RequestJson])
   \<and> POST_catch \<lparr>code = Some 11000\<rparr> = failure ''User with this email already exists'' 400
   \<and> findOne [demo_user] (toLowerCase '' a@x.com'') = None
   \<and> saveNew demo_hasher [demo_user]
        (newUser [demo_user] ''A'' ''a@x.com'' ''secret1'' ''tester'') = Inl \<lparr>code = Some 11000\<rparr>
   \<and> POST demo_hasher [demo_user] padded_create_request =
       (failure ''User with this email already exists'' 400, [demo_user],
        [ConnectToDatabase, RequestJson, FindOne '' a@x.com'',
         Save (newUser [demo_user] ''A'' ''a@x.com'' ''secret1'' ''tester'')])"
proof -
  have lowerE: "toLowerCase (CHR 0xC9 # ''@X.com'') = CHR 0xE9 # ''@x.com''" by code_simp
  have lowerA: "toLowerCase ''a@x.com'' = ''a@x.com''" by code_simp
  have lowerP: "toLowerCase '' a@x.com'' = '' a@x.com''" by code_simp
  have tr: "trim '' a@x.com'' = ''a@x.com''" "trim ''A'' = ''A''" by code_simp+
  have foundE: "findOne [accent_user] (toLowerCase (CHR 0xC9 # ''@X.com'')) = Some accent_user"
    by (simp add: lowerE findOne_def accent_user_def)
  have foundA: "findOne [demo_user] (toLowerCase ''a@x.com'') = Some demo_user"
    by (simp add: lowerA findOne_def demo_user_def)
  have missP: "findOne [demo_user] (toLowerCase '' a@x.com'') = None"
    by (simp add: lowerP findOne_def demo_user_def)
  have dup: "saveNew demo_hasher [demo_user]
        (newUser [demo_user] ''A'' ''a@x.com'' ''secret1'' ''tester'') = Inl \<lparr>code = Some 11000\<rparr>"
    by (simp add: saveNew_def newUser_def demo_user_def)
  have fieldsE: "jsonBody accent_create_request ''name'' = Some ''E''"
    "jsonBody accent_create_request ''email'' = Some (CHR 0xC9 # ''@X.com'')"
    "jsonBody accent_create_request ''oldPassword'' = Some ''default1''"
    "jsonBody accent_create_request ''newPassword'' = Some ''secret1''"
    by (simp_all add: create_defs)
  have fieldsS: "jsonBody short_create_request ''name'' = Some ''A''"
    "jsonBody short_create_request ''email'' = Some ''a@x.com''"
    "jsonBody short_create_request ''oldPassword'' = Some ''default1''"
    "jsonBody short_create_request ''newPassword'' = Some ''abc''"
    by (simp_all add: create_defs)
  have fieldsP: "jsonBody padded_create_request ''name'' = Some ''A''"
    "jsonBody padded_create_request ''email'' = Some '' a@x.com''"
    "jsonBody padded_create_request ''oldPassword'' = Some ''default1''"
    "jsonBody padded_create_request ''newPassword'' = Some ''secret1''"
    "jsonBody padded_create_request ''role'' = None"
    by (simp_all add: create_defs)
  have 1: "POST demo_hasher [accent_user] accent_create_request =
       (failure ''User with this email already exists'' 400, [accent_user],
        [ConnectToDatabase, RequestJson, FindOne (CHR 0xE9 # ''@x.com'')])"
    using create_account_conflict[OF fieldsE, where h = demo_hasher and db = "[accent_user]"
        and x = accent_user] foundE lowerE
    by (simp add: falsy_def str_def)
  have 2: "POST demo_hasher [demo_user] short_create_request =
       (failure ''New password must be at least 6 characters long'' 400, [demo_user],
        [ConnectToDatabase, RequestJson])"
    using create_account_conflict[OF fieldsS, where h = demo_hasher and db = "[demo_user]"
        and x = demo_user] foundA
    by (simp add: falsy_def str_def)
  have 3: "POST_catch \<lparr>code = Some 11000\<rparr> = failure ''User with this email already exists'' 400"
    using create_account_conflict[OF fieldsE, where err = "\<lparr>code = Some 11000\<rparr>"]
    by simp
  have 4: "POST demo_hasher [demo_user] padded_create_request =
       (failure ''User with this email already exists'' 400, [demo_user],
        [ConnectToDatabase, RequestJson, FindOne '' a@x.com'',
         Save (newUser [demo_user] ''A'' ''a@x.com'' ''secret1'' ''tester'')])"
    using create_account_conflict[OF fieldsP(1-4), where h = demo_hasher and db = "[demo_user]"
        and err = "\<lparr>code = Some 11000\<rparr>"] missP dup lowerP tr fieldsP(5)
    by (simp add: falsy_def str_def)
  from 1 2 3 4 foundE missP dup show ?thesis by blast
qed


text \<open>
  C5 as stated fails: a request whose lower-cased email matches an existing record but
  whose new password is too short gets the validation response, not the conflict
  response, since validation comes before the lookup.
\<close>

theorem create_account_conflict_counterexample:
  "findOne [demo_user] (toLowerCase ''a@x.com'') = Some demo_user
   \<and> jsonBody short_create_request ''email'' = Some ''a@x.com''
   \<and> fst (POST demo_hasher [demo_user] short_create_request) =
       failure ''New password must be at least 6 characters long'' 400
   \<and> fst (POST demo_hasher [demo_user] short_create_request) \<noteq>
       failure ''User with this email already exists'' 400"
  by (simp add: POST_def POST_try_def Let_def falsy_def str_def create_defs demo_defs
                findOne_def toLowerCase_def lowerChar_def isUpperCase_def failure_def)

text \<open>
  C9. In a collection whose stored emails are trimmed, take a record \<open>u\<close> with a
  lower-case email and a request email that is \<open>u\<close>'s email with white space around
  it. The lookup of the pre-check, on the lower-cased but untrimmed email, finds no
  record, while the email the handler stores, lower-cased and trimmed, is \<open>u\<close>'s email.
  So a run that reaches the pre-check goes on to the save with a document whose email is
  that of an existing record; for a request that passes validation the run is given in
  full, and it is the store's unique constraint that refuses the document.
\<close>

theorem precheck_misses_padded_email:
  assumes "u \<in> set db"
    and "\<forall>x\<in>set db. trim (email x) = email x"
    and "toLowerCase (email u) = email u"
    and "jsonBody request ''email'' = Some (l @ email u @ r)"
    and "\<forall>c\<in>set l. isWhiteSpace c" and "\<forall>c\<in>set r. isWhiteSpace c"
    and "l \<noteq> [] \<or> r \<noteq> []"
  shows "findOne db (toLowerCase (l @ email u @ r)) = None
       \<and> trim (toLowerCase (l @ email u @ r)) = email u
       \<and> (FindOne (toLowerCase (l @ email u @ r)) \<in> set (snd (snd (POST h db request))) \<longrightarrow>
            (\<exists>d. last (snd (snd (POST h db request))) = Save d \<and> email d = email u))
       \<and> (jsonBody request ''name'' = Some n \<and> n \<noteq> []
            \<and> jsonBody request ''oldPassword'' = Some old \<and> old \<noteq> []
            \<and> jsonBody request ''newPassword'' = Some new \<and> 6 \<le> length new \<and> old \<noteq> new \<longrightarrow>
          POST h db request =
            (failure ''User with this email already exists'' 400, db,
             [ConnectToDatabase, RequestJson, FindOne (toLowerCase (l @ email u @ r)),
              Save (newUser db (trim n) (email u) new
                (case jsonBody request ''role'' of None \<Rightarrow> ''tester'' | Some r \<Rightarrow> r))]))"
proof -
  let ?e = "l @ email u @ r"
  let ?role = "case jsonBody request ''role'' of None \<Rightarrow> ''tester'' | Some r \<Rightarrow> r"
  have tu: "trim (email u) = email u" using assms(1,2) by blast
  have low: "toLowerCase ?e = ?e"
    using assms(3,5,6) by (simp add: toLowerCase_append toLowerCase_white)
  have tr: "trim ?e = email u" using tu assms(5,6) by (rule trim_padded)
  have nt: "trim ?e \<noteq> ?e" using tu assms(5,6,7) by (rule padded_not_trimmed)
  have miss: "findOne db ?e = None"
    unfolding findOne_None_iff
  proof
    fix x assume "x \<in> set db"
    with assms(2) have "trim (email x) = email x" by blast
    with nt show "email x \<noteq> ?e" by auto
  qed
  have ne: "?e \<noteq> []" using assms(7) by auto
  have run: "POST h db request =
            (failure ''User with this email already exists'' 400, db,
             [ConnectToDatabase, RequestJson, FindOne ?e, Save (newUser db (trim n) (email u) new ?role)])"
    if v: "jsonBody request ''name'' = Some n" "n \<noteq> []"
          "jsonBody request ''oldPassword'' = Some old" "old \<noteq> []"
          "jsonBody request ''newPassword'' = Some new" "6 \<le> length new" "old \<noteq> new"
    for n old new
  proof -
    have dup: "saveNew h db (newUser db (trim n) (email u) new ?role) = Inl \<lparr>code = Some 11000\<rparr>"
      using assms(1) by (rule saveNew_dup) (simp add: newUser_def)
    from POST_try_valid[OF v(1,2) assms(4) ne v(3-7), of h db] miss dup low tr
    show ?thesis by (simp add: POST_def POST_catch_def)
  qed
  have reach: "\<exists>d. last (snd (snd (POST h db request))) = Save d \<and> email d = email u"
    if "FindOne ?e \<in> set (snd (snd (POST h db request)))"
  proof -
    from that obtain n old new where
      v: "jsonBody request ''name'' = Some n" "n \<noteq> []"
         "jsonBody request ''oldPassword'' = Some old" "old \<noteq> []"
         "jsonBody request ''newPassword'' = Some new" "6 \<le> length new" "old \<noteq> new"
      using assms(4)
      by (auto simp: POST_def POST_try_def Let_def falsy_def str_def
               split: if_splits option.splits)
    from run[OF v] show ?thesis by (simp add: newUser_def)
  qed
  from miss tr low run reach show ?thesis by simp
qed


theorem precheck_misses_padded_email_witness:
  "findOne [demo_user] (toLowerCase '' a@x.com'') = None
   \<and> trim (toLowerCase '' a@x.com'') = email demo_user
   \<and> POST demo_hasher [demo_user] padded_create_request =
       (failure ''User with this email already exists'' 400, [demo_user],
        [ConnectToDatabase, RequestJson, FindOne '' a@x.com'',
         Save \<lparr>user_id = 2, name = ''A'', email = ''a@x.com'', password = ''secret1'',
               role = ''tester'', isActive = True\<rparr>])"
proof -
  have hyps: "demo_user \<in> set [demo_user]"
    "\<forall>x\<in>set [demo_user]. trim (email x) = email x"
    "toLowerCase (email demo_user) = email demo_user"
    "jsonBody padded_create_request ''email'' = Some ('' '' @ email demo_user @ [])"
    "\<forall>c\<in>set '' ''. isWhiteSpace c" "\<forall>c\<in>set []. isWhiteSpace c"
    "'' '' \<noteq> [] \<or> ([]::string) \<noteq> []"
    by (simp_all add: demo_defs create_defs trim_def isWhiteSpace_def toLowerCase_def
                  lowerChar_def isUpperCase_def)
  have tn: "trim ''A'' = ''A''" by (simp add: trim_def isWhiteSpace_def)
  have low: "toLowerCase '' a@x.com'' = '' a@x.com''"
    by code_simp
  from precheck_misses_padded_email[OF hyps, where h = demo_hasher and n = "''A''"
      and old = "''default1''" and new = "''secret1''"] tn low
  show ?thesis
    by (simp add: demo_defs create_defs newUser_def newObjectId_def)
qed

section \<open>Claims about the form controller and about empty fields\<close>

text \<open>
  C8. In the \<open>catch\<close> block of the form controller, an error message that contains
  \<open>password\<close> goes to the \<open>oldPassword\<close> slot and any other message to the \<open>general\<close>
  slot; the \<open>newPassword\<close> slot is never set. The message is the server's, which a
  message containing \<open>password\<close> always is, or the fallback text when the server sent
  none.
\<close>

theorem server_error_routing:
  "(str_includes (errorMessage e) ''password'' \<longrightarrow>
      handleSubmit_catch e =
        \<lparr>oldPassword = Some (errorMessage e), newPassword = None, general = None\<rparr>)
   \<and> (\<not> str_includes (errorMessage e) ''password'' \<longrightarrow>
      handleSubmit_catch e =
        \<lparr>oldPassword = None, newPassword = None, general = Some (errorMessage e)\<rparr>)
   \<and> (e = Some m \<and> str_includes m ''password'' \<longrightarrow> errorMessage e = m)
   \<and> newPassword (handleSubmit_catch e) = None"
proof -
  have "m \<noteq> []" if "str_includes m ''password''" for m
    using that by (auto simp: str_includes_def)
  then have raw: "e = Some m \<and> str_includes m ''password'' \<longrightarrow> errorMessage e = m"
    by (auto simp: errorMessage_def falsy_def str_def)
  have imp: "str_includes (errorMessage e) ''Current password is incorrect''
               \<Longrightarrow> str_includes (errorMessage e) ''password''"
    by (rule includes_password)
  from raw imp show ?thesis by (auto simp: handleSubmit_catch_def Let_def)
qed

theorem server_error_routing_witness:
  "handleSubmit_catch (Some ''Current password is incorrect'') =
     \<lparr>oldPassword = Some ''Current password is incorrect'', newPassword = None, general = None\<rparr>
   \<and> handleSubmit_catch (Some ''User not found'') =
     \<lparr>oldPassword = None, newPassword = None, general = Some ''User not found''\<rparr>
   \<and> handleSubmit_catch None =
     \<lparr>oldPassword = None, newPassword = None, general = Some ''Failed to process request''\<rparr>"
proof -
  have 1: "handleSubmit_catch (Some ''Current password is incorrect'') =
     \<lparr>oldPassword = Some ''Current password is incorrect'', newPassword = None, general = None\<rparr>"
    using server_error_routing[of "Some ''Current password is incorrect''"]
    by (simp add: errorMessage_def falsy_def str_def str_includes_def sublist_code(3))
  have 2: "handleSubmit_catch (Some ''User not found'') =
     \<lparr>oldPassword = None, newPassword = None, general = Some ''User not found''\<rparr>"
    using server_error_routing[of "Some ''User not found''"]
    by (simp add: errorMessage_def falsy_def str_def str_includes_def sublist_code(3))
  have 3: "handleSubmit_catch None =
     \<lparr>oldPassword = None, newPassword = None, general = Some ''Failed to process request''\<rparr>"
    using server_error_routing[of None]
    by (simp add: errorMessage_def falsy_def str_def str_includes_def sublist_code(3))
  from 1 2 3 show ?thesis by blast
qed

text \<open>
  C10, as amended. In both handlers a field holding the empty string is treated as an
  absent one: removing the key gives the same response, collection and calls. In the
  creation handler an empty \<open>name\<close>, \<open>email\<close>, \<open>oldPassword\<close> or \<open>newPassword\<close> gets the
  400 response for missing fields. In the change handler an empty \<open>oldPassword\<close> or
  \<open>newPassword\<close> gets the 400 response for missing fields when the caller identity
  resolves, and the 401 response when it does not.
\<close>

theorem empty_field_as_absent:
  "(k \<in> {''name'', ''email'', ''oldPassword'', ''newPassword''} \<and> jsonBody request k = Some [] \<longrightarrow>
      POST h db request =
        (failure ''All fields are required'' 400, db, [ConnectToDatabase, RequestJson])
      \<and> POST h db (request\<lparr>jsonBody := (jsonBody request)(k := None)\<rparr>) = POST h db request)
   \<and> (k \<in> {''oldPassword'', ''newPassword''} \<and> jsonBody request k = Some [] \<longrightarrow>
      PUT h db (request\<lparr>jsonBody := (jsonBody request)(k := None)\<rparr>) = PUT h db request
      \<and> (userPayload request = Some uid \<longrightarrow>
           PUT h db request =
             (failure ''Old password and new password are required'' 400, db,
              [ConnectToDatabase, GetUserFromRequest, RequestJson]))
      \<and> (userPayload request = None \<longrightarrow>
           PUT h db request =
             (failure ''Unauthorized'' 401, db, [ConnectToDatabase, GetUserFromRequest])))"
proof (rule conjI; rule impI)
  assume a: "k \<in> {''name'', ''email'', ''oldPassword'', ''newPassword''} \<and> jsonBody request k = Some []"
  then have m: "falsy (jsonBody request ''name'') \<or> falsy (jsonBody request ''email'')
      \<or> falsy (jsonBody request ''oldPassword'') \<or> falsy (jsonBody request ''newPassword'')"
    by (auto simp: falsy_def)
  from m have 1: "POST h db request =
        (failure ''All fields are required'' 400, db, [ConnectToDatabase, RequestJson])"
    by (simp add: POST_def POST_try_def Let_def)
  from a have "POST h db (request\<lparr>jsonBody := (jsonBody request)(k := None)\<rparr>) =
        (failure ''All fields are required'' 400, db, [ConnectToDatabase, RequestJson])"
    by (auto simp: POST_def POST_try_def Let_def falsy_def)
  with 1 show "POST h db request =
        (failure ''All fields are required'' 400, db, [ConnectToDatabase, RequestJson])
      \<and> POST h db (request\<lparr>jsonBody := (jsonBody request)(k := None)\<rparr>) = POST h db request"
    by simp
next
  assume a: "k \<in> {''oldPassword'', ''newPassword''} \<and> jsonBody request k = Some []"
  then have m: "falsy (jsonBody request ''oldPassword'') \<or> falsy (jsonBody request ''newPassword'')"
    by (auto simp: falsy_def)
  have same: "PUT h db (request\<lparr>jsonBody := (jsonBody request)(k := None)\<rparr>) = PUT h db request"
    using a by (auto simp: PUT_def Let_def falsy_def split: option.splits)
  have auth: "userPayload request = Some uid \<longrightarrow>
           PUT h db request =
             (failure ''Old password and new password are required'' 400, db,
              [ConnectToDatabase, GetUserFromRequest, RequestJson])"
    using m by (simp add: PUT_def Let_def)
  have anon: "userPayload request = None \<longrightarrow>
           PUT h db request =
             (failure ''Unauthorized'' 401, db, [ConnectToDatabase, GetUserFromRequest])"
    by (simp add: PUT_def)
  from same auth anon show "PUT h db (request\<lparr>jsonBody := (jsonBody request)(k := None)\<rparr>) = PUT h db request
      \<and> (userPayload request = Some uid \<longrightarrow>
           PUT h db request =
             (failure ''Old password and new password are required'' 400, db,
              [ConnectToDatabase, GetUserFromRequest, RequestJson]))
      \<and> (userPayload request = None \<longrightarrow>
           PUT h db request =
             (failure ''Unauthorized'' 401, db, [ConnectToDatabase, GetUserFromRequest]))"
    by blast
qed


theorem empty_field_as_absent_witness:
  "POST demo_hasher [] (create_request\<lparr>jsonBody := (jsonBody create_request)(''name'' \<mapsto> [])\<rparr>) =
     (failure ''All fields are required'' 400, [], [ConnectToDatabase, RequestJson])
   \<and> PUT demo_hasher [demo_user]
       (change_request\<lparr>jsonBody := (jsonBody change_request)(''oldPassword'' \<mapsto> [])\<rparr>) =
     (failure ''Old password and new password are required'' 400, [demo_user],
      [ConnectToDatabase, GetUserFromRequest, RequestJson])
   \<and> PUT demo_hasher [demo_user] anon_request =
     (failure ''Unauthorized'' 401, [demo_user], [ConnectToDatabase, GetUserFromRequest])"
proof -
  have 1: "POST demo_hasher [] (create_request\<lparr>jsonBody := (jsonBody create_request)(''name'' \<mapsto> [])\<rparr>) =
     (failure ''All fields are required'' 400, [], [ConnectToDatabase, RequestJson])"
    using empty_field_as_absent[where k = "''name''" and h = demo_hasher and db = "[]"
        and request = "create_request\<lparr>jsonBody := (jsonBody create_request)(''name'' \<mapsto> [])\<rparr>"]
    by simp
  have 2: "PUT demo_hasher [demo_user]
       (change_request\<lparr>jsonBody := (jsonBody change_request)(''oldPassword'' \<mapsto> [])\<rparr>) =
     (failure ''Old password and new password are required'' 400, [demo_user],
      [ConnectToDatabase, GetUserFromRequest, RequestJson])"
    using empty_field_as_absent[where k = "''oldPassword''" and h = demo_hasher
        and db = "[demo_user]" and uid = 1
        and request = "change_request\<lparr>jsonBody := (jsonBody change_request)(''oldPassword'' \<mapsto> [])\<rparr>"]
    by (simp add: change_request_def)
  have 3: "PUT demo_hasher [demo_user] anon_request =
     (failure ''Unauthorized'' 401, [demo_user], [ConnectToDatabase, GetUserFromRequest])"
    using empty_field_as_absent[where k = "''oldPassword''" and h = demo_hasher
        and db = "[demo_user]" and request = anon_request]
    by (simp add: anon_request_def)
  from 1 2 3 show ?thesis by blast
qed


text \<open>
  C10 as stated fails: a change request with an empty \<open>oldPassword\<close> and no caller
  identity gets 401, not the 400 response for missing fields, since the identity is
  checked before the body is read.
\<close>

theorem empty_field_counterexample:
  "jsonBody anon_request ''oldPassword'' = Some []
   \<and> fst (PUT demo_hasher [demo_user] anon_request) = failure ''Unauthorized'' 401
   \<and> fst (PUT demo_hasher [demo_user] anon_request) \<noteq>
       failure ''Old password and new password are required'' 400"
  by (simp add: PUT_def demo_defs failure_def)

end
